theory Spec2Isabelle
  imports Complex_Main "HOL-Library.Product_Lexorder"
begin

section \<open>ToneBridge auto-transform service: rule evaluation, caching and logging\<close>

text \<open>
  A shallow embedding of \<^verbatim>\<open>services/auto-transform/app/main.py\<close>.

  Conventions of the embedding:
  \<^item> Python exceptions are values: a function that can raise returns
    \<open>py_error + 'a\<close>, with \<open>Inl\<close> the exception.
  \<^item> Python floats (confidences, polarity) are rationals; rounding is not modelled.
  \<^item> Python strings are \<open>string\<close> (8-bit characters); \<^verbatim>\<open>str.lower\<close> is modelled on
    the ASCII letters.
  \<^item> Values of type \<^verbatim>\<open>Dict[str, Any]\<close> (a rule's \<^verbatim>\<open>trigger_value\<close>) are JSON values,
    a dictionary being an association list read with \<open>map_of\<close>.
  \<^item> Third-party library calls (TextBlob polarity, \<^verbatim>\<open>time.fromisoformat\<close>,
    \<^verbatim>\<open>re.compile\<close>/\<^verbatim>\<open>search\<close>, float formatting) are parameters collected in the
    record \<open>extern\<close>.
  \<^item> Names with a leading underscore lose it (\<^verbatim>\<open>_check_keywords\<close> is
    \<open>check_keywords\<close>).
\<close>

subsection \<open>Python values and exceptions\<close>

datatype py_error =
    AttributeError
  | TypeError
  | ValueError
  | ZeroDivisionError
  | ConnectionError
  | HTTPStatusError nat
  | TransportError
  | TimeoutException
  | JSONDecodeError
  | KeyError
  | IndexError
  | TransformationFailed

datatype json =
    JNull
  | JBool bool
  | JInt int
  | JFloat rat
  | JStr string
  | JList "json list"
  | JDict "(string \<times> json) list"

type_synonym pydict = "(string \<times> json) list"

text \<open>\<^verbatim>\<open>d.get(k, default)\<close>\<close>

definition dict_get :: "pydict \<Rightarrow> string \<Rightarrow> json \<Rightarrow> json" where
  "dict_get d k dflt = (case map_of d k of None \<Rightarrow> dflt | Some v \<Rightarrow> v)"

text \<open>Python truthiness, as tested by \<^verbatim>\<open>if x:\<close>.\<close>

fun truthy :: "json \<Rightarrow> bool" where
  "truthy JNull = False"
| "truthy (JBool b) = b"
| "truthy (JInt i) = (i \<noteq> 0)"
| "truthy (JFloat r) = (r \<noteq> 0)"
| "truthy (JStr s) = (s \<noteq> [])"
| "truthy (JList xs) = (xs \<noteq> [])"
| "truthy (JDict kvs) = (kvs \<noteq> [])"

text \<open>
  Iteration (\<^verbatim>\<open>for x in v\<close>, \<^verbatim>\<open>len(v)\<close>): a list yields its elements, a string its
  characters, a dictionary its keys; anything else raises \<^verbatim>\<open>TypeError\<close>.
\<close>

fun py_iter :: "json \<Rightarrow> py_error + json list" where
  "py_iter (JList xs) = Inr xs"
| "py_iter (JStr s) = Inr (map (\<lambda>c. JStr [c]) s)"
| "py_iter (JDict kvs) = Inr (map (\<lambda>kv. JStr (fst kv)) kvs)"
| "py_iter v = Inl TypeError"

text \<open>\<^verbatim>\<open>a / b\<close> on numbers.\<close>

definition py_truediv :: "rat \<Rightarrow> rat \<Rightarrow> py_error + rat" where
  "py_truediv a b = (if b = 0 then Inl ZeroDivisionError else Inr (a / b))"

subsection \<open>Strings\<close>

definition lower_char :: "char \<Rightarrow> char" where
  "lower_char c =
     (let n = (of_char c :: nat) in if 65 \<le> n \<and> n \<le> 90 then char_of (n + 32) else c)"

definition lower :: "string \<Rightarrow> string" where
  "lower s = map lower_char s"

text \<open>\<^verbatim>\<open>needle in hay\<close> on strings: \<open>needle\<close> occurs as a contiguous piece of \<open>hay\<close>.\<close>

fun is_prefix :: "string \<Rightarrow> string \<Rightarrow> bool" where
  "is_prefix [] ys = True"
| "is_prefix (x # xs) [] = False"
| "is_prefix (x # xs) (y # ys) = (x = y \<and> is_prefix xs ys)"

fun str_contains :: "string \<Rightarrow> string \<Rightarrow> bool" where
  "str_contains [] needle = (needle = [])"
| "str_contains (h # hs) needle = (is_prefix needle (h # hs) \<or> str_contains hs needle)"

text \<open>\<^verbatim>\<open>sep.join(xs)\<close>\<close>

fun join :: "string \<Rightarrow> string list \<Rightarrow> string" where
  "join sep [] = []"
| "join sep [x] = x"
| "join sep (x # y # ys) = x @ sep @ join sep (y # ys)"

subsection \<open>Trigger evaluators\<close>

text \<open>The dictionary \<^verbatim>\<open>{'matches': ..., 'confidence': ..., 'reason': ...}\<close>.\<close>

record trig_result =
  matches :: bool
  confidence :: rat
  reason :: string

definition no_match :: "string \<Rightarrow> trig_result" where
  "no_match r = \<lparr>matches = False, confidence = 0, reason = r\<rparr>"

text \<open>
  \<^verbatim>\<open>[kw for kw in keywords if kw.lower() in message_lower]\<close>: an element that is not a
  string has no \<^verbatim>\<open>lower\<close> and raises \<^verbatim>\<open>AttributeError\<close>.
\<close>

fun found_keywords :: "string \<Rightarrow> json list \<Rightarrow> py_error + string list" where
  "found_keywords message_lower [] = Inr []"
| "found_keywords message_lower (JStr kw # kws) =
     (case found_keywords message_lower kws of
        Inl e \<Rightarrow> Inl e
      | Inr found \<Rightarrow>
          Inr (if str_contains message_lower (lower kw) then kw # found else found))"
| "found_keywords message_lower (v # kws) = Inl AttributeError"

definition check_keywords :: "string \<Rightarrow> json \<Rightarrow> py_error + trig_result" where
  "check_keywords message keywords =
     (let message_lower = lower message in
      case py_iter keywords of
        Inl e \<Rightarrow> Inl e
      | Inr kws \<Rightarrow>
         (case found_keywords message_lower kws of
            Inl e \<Rightarrow> Inl e
          | Inr found \<Rightarrow>
              if found \<noteq> [] then
                (case py_truediv (of_nat (length found)) (of_nat (length kws)) of
                   Inl e \<Rightarrow> Inl e
                 | Inr q \<Rightarrow>
                     Inr \<lparr>matches = True, confidence = min 1 q,
                          reason = ''Contains keywords: '' @ join '', '' found\<rparr>)
              else Inr (no_match ''No keywords found'')))"

text \<open>
  Library calls the service makes, taken as parameters:
  \<^item> \<open>textblob_polarity\<close>: \<^verbatim>\<open>TextBlob(message).sentiment.polarity\<close>, \<open>None\<close> when it raises;
  \<^item> \<open>fromisoformat\<close>: \<^verbatim>\<open>datetime.time.fromisoformat\<close>, which raises \<^verbatim>\<open>ValueError\<close> on a
    string that is not an ISO time;
  \<^item> \<open>re_search\<close>: \<^verbatim>\<open>re.compile(pattern, re.IGNORECASE).search(message)\<close> as a truth
    value, \<open>None\<close> when the pattern does not compile (\<^verbatim>\<open>re.error\<close>);
  \<^item> \<open>format_2f\<close>: the format \<^verbatim>\<open>{x:.2f}\<close>; \<open>py_str\<close>: \<^verbatim>\<open>str(x)\<close> in an f-string.
\<close>

text \<open>
  A \<^verbatim>\<open>datetime.time\<close>: hour, minute, second, microsecond (compared lexicographically) and
  whether it carries a UTC offset.
\<close>

type_synonym tod = "nat \<times> nat \<times> nat \<times> nat"

record pytime =
  time_of_day :: tod
  tz_aware :: bool

record extern =
  textblob_polarity :: "string \<Rightarrow> rat option"
  fromisoformat :: "string \<Rightarrow> py_error + pytime"
  re_search :: "string \<Rightarrow> string \<Rightarrow> bool option"
  format_2f :: "rat \<Rightarrow> string"
  py_str :: "json \<Rightarrow> string"

text \<open>A JSON value used as a number (\<^verbatim>\<open>bool\<close> is a subtype of \<^verbatim>\<open>int\<close> in Python).\<close>

fun num_of :: "json \<Rightarrow> rat option" where
  "num_of (JInt i) = Some (of_int i)"
| "num_of (JFloat r) = Some r"
| "num_of (JBool b) = Some (if b then 1 else 0)"
| "num_of v = None"

text \<open>
  The whole body of \<^verbatim>\<open>_check_sentiment\<close> is inside \<^verbatim>\<open>try ... except Exception\<close>, and the
  handler falls through to the final \<^verbatim>\<open>return\<close>: a raising TextBlob and a threshold that
  cannot be compared with a float both end in 'Sentiment check failed'.
\<close>

definition check_sentiment :: "extern \<Rightarrow> string \<Rightarrow> pydict \<Rightarrow> trig_result" where
  "check_sentiment ext message config =
     (let failed = no_match ''Sentiment check failed'' in
      case textblob_polarity ext message of
        None \<Rightarrow> failed
      | Some polarity \<Rightarrow>
         (let threshold = dict_get config ''threshold'' (JInt 0);
              operator = dict_get config ''operator'' (JStr ''less_than'')
          in case operator of
               JStr opr \<Rightarrow>
                 if opr = ''less_than'' \<or> opr = ''greater_than'' \<or> opr = ''equals'' then
                   (case num_of threshold of
                      None \<Rightarrow> failed
                    | Some t \<Rightarrow>
                        if (opr = ''less_than'' \<and> polarity < t)
                           \<or> (opr = ''greater_than'' \<and> polarity > t)
                           \<or> (opr = ''equals'' \<and> \<bar>polarity - t\<bar> < 1 / 10)
                        then \<lparr>matches = True,
                              confidence = min 1 (\<bar>polarity - t\<bar> / 2),
                              reason = ''Sentiment polarity '' @ format_2f ext polarity @ '' ''
                                       @ opr @ '' '' @ py_str ext threshold\<rparr>
                        else failed)
                 else failed
             | _ \<Rightarrow> failed))"

text \<open>\<^verbatim>\<open>set(v)\<close>: the elements of an iterable, which must be hashable.\<close>

fun hashable :: "json \<Rightarrow> bool" where
  "hashable (JList xs) = False"
| "hashable (JDict kvs) = False"
| "hashable v = True"

definition py_set :: "json \<Rightarrow> py_error + json list" where
  "py_set v =
     (case py_iter v of
        Inl e \<Rightarrow> Inl e
      | Inr xs \<Rightarrow> if list_all hashable xs then Inr xs else Inl TypeError)"

text \<open>\<^verbatim>\<open>', '.join(v)\<close>: every element of the iterable must be a string.\<close>

fun all_strs :: "json list \<Rightarrow> py_error + string list" where
  "all_strs [] = Inr []"
| "all_strs (JStr s # xs) = (case all_strs xs of Inl e \<Rightarrow> Inl e | Inr ss \<Rightarrow> Inr (s # ss))"
| "all_strs (v # xs) = Inl TypeError"

definition py_join :: "string \<Rightarrow> json \<Rightarrow> py_error + string" where
  "py_join sep v =
     (case py_iter v of
        Inl e \<Rightarrow> Inl e
      | Inr xs \<Rightarrow> (case all_strs xs of Inl e \<Rightarrow> Inl e | Inr ss \<Rightarrow> Inr (join sep ss)))"

text \<open>
  \<^verbatim>\<open>_check_recipients\<close>. The order in which a Python set is joined is unspecified; the
  model lists the matching ids in the order of \<open>recipient_ids\<close>.
\<close>

definition check_recipients :: "string list \<Rightarrow> pydict \<Rightarrow> py_error + trig_result" where
  "check_recipients recipient_ids config =
     (let target_roles = dict_get config ''roles'' (JList []);
          target_ids = dict_get config ''ids'' (JList []);
          roles_part =
            (if truthy target_roles then
               (case py_join '', '' target_roles of
                  Inl e \<Rightarrow> Inl e
                | Inr s \<Rightarrow> Inr \<lparr>matches = True, confidence = 8 / 10,
                                 reason = ''Recipient role match: '' @ s\<rparr>)
             else Inr (no_match ''No recipient match''))
      in if truthy target_ids then
           (case py_set target_ids of
              Inl e \<Rightarrow> Inl e
            | Inr ids \<Rightarrow>
               (let matching_ids = filter (\<lambda>r. JStr r \<in> set ids) (remdups recipient_ids)
                in if matching_ids \<noteq> [] then
                     Inr \<lparr>matches = True, confidence = 9 / 10,
                          reason = ''Recipient match: '' @ join '', '' matching_ids\<rparr>
                   else roles_part))
         else roles_part)"

text \<open>\<^verbatim>\<open>channel_id in v\<close> for a string \<open>channel_id\<close>.\<close>

fun str_in :: "string \<Rightarrow> json \<Rightarrow> py_error + bool" where
  "str_in c (JList xs) = Inr (JStr c \<in> set xs)"
| "str_in c (JStr s) = Inr (str_contains s c)"
| "str_in c (JDict kvs) = Inr (c \<in> fst ` set kvs)"
| "str_in c v = Inl TypeError"

definition check_channel :: "string option \<Rightarrow> pydict \<Rightarrow> py_error + trig_result" where
  "check_channel channel_id config =
     (case channel_id of
        None \<Rightarrow> Inr (no_match ''No channel specified'')
      | Some cid \<Rightarrow>
         if cid = [] then Inr (no_match ''No channel specified'')
         else
          (let channel_type = dict_get config ''type'' JNull;
               channel_ids = dict_get config ''ids'' (JList []);
               type_part =
                 (if truthy channel_type \<and> channel_type = JStr ''support''
                     \<and> str_contains (lower cid) ''support''
                  then \<lparr>matches = True, confidence = 8 / 10,
                        reason = ''Channel type match: '' @ ''support''\<rparr>
                  else no_match ''No channel match'')
           in if truthy channel_ids then
                (case str_in cid channel_ids of
                   Inl e \<Rightarrow> Inl e
                 | Inr True \<Rightarrow> Inr \<lparr>matches = True, confidence = 1,
                                    reason = ''Channel match: '' @ cid\<rparr>
                 | Inr False \<Rightarrow> Inr type_part)
              else Inr type_part))"

text \<open>
  \<^verbatim>\<open>_check_time\<close>. \<open>current_time\<close> is \<^verbatim>\<open>datetime.now().time()\<close>, a time without UTC
  offset; comparing it with a time that has one raises \<^verbatim>\<open>TypeError\<close>, and so does
  \<^verbatim>\<open>fromisoformat\<close> of a value that is not a string. Nothing in \<^verbatim>\<open>_check_time\<close> catches
  an exception.
\<close>

definition parse_bound :: "extern \<Rightarrow> json \<Rightarrow> py_error + pytime" where
  "parse_bound ext v = (case v of JStr s \<Rightarrow> fromisoformat ext s | _ \<Rightarrow> Inl TypeError)"

definition time_lt :: "tod \<Rightarrow> pytime \<Rightarrow> py_error + bool" where
  "time_lt current_time t = (if tz_aware t then Inl TypeError else Inr (current_time < time_of_day t))"

definition time_gt :: "tod \<Rightarrow> pytime \<Rightarrow> py_error + bool" where
  "time_gt current_time t = (if tz_aware t then Inl TypeError else Inr (current_time > time_of_day t))"

definition two_digits :: "nat \<Rightarrow> string" where
  "two_digits n = [char_of (48 + n div 10 mod 10), char_of (48 + n mod 10)]"

text \<open>\<^verbatim>\<open>now.strftime('%H:%M')\<close>\<close>

definition strftime_HM :: "tod \<Rightarrow> string" where
  "strftime_HM t = (case t of (h, m, s, us) \<Rightarrow> two_digits h @ '':'' @ two_digits m)"

definition check_time :: "extern \<Rightarrow> tod \<Rightarrow> pydict \<Rightarrow> py_error + trig_result" where
  "check_time ext current_time config =
     (let after_str = dict_get config ''after'' JNull;
          before_str = dict_get config ''before'' JNull
      in case (if truthy after_str then
                 (case parse_bound ext after_str of
                    Inl e \<Rightarrow> Inl e
                  | Inr after_time \<Rightarrow> time_lt current_time after_time)
               else Inr False) of
           Inl e \<Rightarrow> Inl e
         | Inr True \<Rightarrow> Inr (no_match ''Before time window'')
         | Inr False \<Rightarrow>
            (case (if truthy before_str then
                     (case parse_bound ext before_str of
                        Inl e \<Rightarrow> Inl e
                      | Inr before_time \<Rightarrow> time_gt current_time before_time)
                   else Inr False) of
               Inl e \<Rightarrow> Inl e
             | Inr True \<Rightarrow> Inr (no_match ''After time window'')
             | Inr False \<Rightarrow>
                 Inr \<lparr>matches = True, confidence = 9 / 10,
                      reason = ''Within time window: '' @ strftime_HM current_time\<rparr>))"

text \<open>
  \<^verbatim>\<open>_check_patterns\<close>: only \<^verbatim>\<open>re.error\<close> is caught, per pattern; a pattern that is not a
  string makes \<^verbatim>\<open>re.compile\<close> raise \<^verbatim>\<open>TypeError\<close>.
\<close>

fun patterns_loop :: "extern \<Rightarrow> string \<Rightarrow> json list \<Rightarrow> py_error + trig_result" where
  "patterns_loop ext message [] = Inr (no_match ''No pattern match'')"
| "patterns_loop ext message (JStr pattern_str # ps) =
     (case re_search ext pattern_str message of
        Some True \<Rightarrow> Inr \<lparr>matches = True, confidence = 9 / 10,
                          reason = ''Pattern match: '' @ pattern_str\<rparr>
      | _ \<Rightarrow> patterns_loop ext message ps)"
| "patterns_loop ext message (v # ps) = Inl TypeError"

definition check_patterns :: "extern \<Rightarrow> string \<Rightarrow> json \<Rightarrow> py_error + trig_result" where
  "check_patterns ext message patterns =
     (case py_iter patterns of Inl e \<Rightarrow> Inl e | Inr ps \<Rightarrow> patterns_loop ext message ps)"

subsection \<open>Message context, rules and rule resolution\<close>

record message_context =
  message :: string
  user_id :: string
  tenant_id :: string
  platform :: string
  channel_id :: "string option"
  recipient_ids :: "string list"
  metadata :: pydict

text \<open>A row of \<^verbatim>\<open>auto_transform_rules\<close> as a dictionary; \<open>rule_id\<close> is its key \<^verbatim>\<open>'id'\<close>.\<close>

record rule =
  rule_id :: string
  config_id :: nat
  rule_name :: string
  enabled :: bool
  priority :: int
  trigger_type :: string
  trigger_value :: pydict
  transformation_type :: string
  transformation_intensity :: int
  transformation_options :: pydict
  platforms :: "string list"
  channels :: "string list"
  user_roles :: "string list"

definition evaluate_trigger ::
  "extern \<Rightarrow> tod \<Rightarrow> message_context \<Rightarrow> string \<Rightarrow> pydict \<Rightarrow> py_error + trig_result" where
  "evaluate_trigger ext current_time context ttype tvalue =
     (if ttype = ''keyword'' then
        check_keywords (message context) (dict_get tvalue ''keywords'' (JList []))
      else if ttype = ''sentiment'' then Inr (check_sentiment ext (message context) tvalue)
      else if ttype = ''recipient'' then check_recipients (recipient_ids context) tvalue
      else if ttype = ''channel'' then check_channel (channel_id context) tvalue
      else if ttype = ''time'' then check_time ext current_time tvalue
      else if ttype = ''pattern'' then
        check_patterns ext (message context) (dict_get tvalue ''patterns'' (JList []))
      else Inr (no_match ''Unknown trigger type''))"

text \<open>An entry of \<^verbatim>\<open>matches\<close>: \<^verbatim>\<open>{'rule': ..., 'confidence': ..., 'reason': ...}\<close>.\<close>

record rule_match =
  m_rule :: rule
  m_confidence :: rat
  m_reason :: string

text \<open>The pydantic model \<^verbatim>\<open>TransformationResult\<close>.\<close>

record transformation_result =
  should_transform :: bool
  res_rule_id :: "string option"
  res_rule_name :: "string option"
  res_transformation_type :: string
  res_transformation_intensity :: int
  res_transformation_options :: pydict
  res_confidence :: rat
  res_reason :: "string option"

text \<open>The allow-list tests at the head of the loop of \<^verbatim>\<open>evaluate_rules\<close>.\<close>

definition admits :: "message_context \<Rightarrow> rule \<Rightarrow> bool" where
  "admits context r =
     (\<not> (platforms r \<noteq> [] \<and> platform context \<notin> set (platforms r))
      \<and> \<not> (channels r \<noteq> []
             \<and> (case channel_id context of None \<Rightarrow> True | Some c \<Rightarrow> c \<notin> set (channels r))))"

text \<open>
  The loop of \<^verbatim>\<open>evaluate_rules\<close>. It returns the list \<^verbatim>\<open>matches\<close>, or the exception of
  the first trigger evaluation that raises, and, as a ghost value, the number of calls of
  \<^verbatim>\<open>_evaluate_trigger\<close> it made.
\<close>

fun collect_matches ::
  "extern \<Rightarrow> tod \<Rightarrow> message_context \<Rightarrow> rule list \<Rightarrow> (py_error + rule_match list) \<times> nat" where
  "collect_matches ext current_time context [] = (Inr [], 0)"
| "collect_matches ext current_time context (r # rs) =
     (if \<not> enabled r then collect_matches ext current_time context rs
      else if \<not> admits context r then collect_matches ext current_time context rs
      else
        (case evaluate_trigger ext current_time context (trigger_type r) (trigger_value r) of
           Inl e \<Rightarrow> (Inl e, 1)
         | Inr match_result \<Rightarrow>
            (case collect_matches ext current_time context rs of
               (Inl e, n) \<Rightarrow> (Inl e, Suc n)
             | (Inr ms, n) \<Rightarrow>
                (Inr (if matches match_result
                      then \<lparr>m_rule = r, m_confidence = confidence match_result,
                            m_reason = reason match_result\<rparr> # ms
                      else ms), Suc n))))"

text \<open>
  \<^verbatim>\<open>matches.sort(key=lambda x: (x['rule']['priority'], x['confidence']), reverse=True)\<close>:
  Python's sort is stable, also with \<^verbatim>\<open>reverse=True\<close> (entries with equal keys keep
  their order).
\<close>

definition sort_key_of :: "rule_match \<Rightarrow> int \<times> rat" where
  "sort_key_of m = (priority (m_rule m), m_confidence m)"

definition sort_matches :: "rule_match list \<Rightarrow> rule_match list" where
  "sort_matches ms = rev (sort_key sort_key_of (rev ms))"

definition result_of :: "rule_match \<Rightarrow> transformation_result" where
  "result_of best_match =
     \<lparr>should_transform = True,
      res_rule_id = Some (rule_id (m_rule best_match)),
      res_rule_name = Some (rule_name (m_rule best_match)),
      res_transformation_type = transformation_type (m_rule best_match),
      res_transformation_intensity = transformation_intensity (m_rule best_match),
      res_transformation_options = transformation_options (m_rule best_match),
      res_confidence = m_confidence best_match,
      res_reason = Some (m_reason best_match)\<rparr>"

definition evaluate_rules ::
  "extern \<Rightarrow> tod \<Rightarrow> message_context \<Rightarrow> rule list
     \<Rightarrow> (py_error + transformation_result option) \<times> nat" where
  "evaluate_rules ext current_time context rs =
     (case collect_matches ext current_time context rs of
        (Inl e, n) \<Rightarrow> (Inl e, n)
      | (Inr ms, n) \<Rightarrow>
          (if ms = [] then Inr None
           else (case sort_matches ms of
                   best_match # rest \<Rightarrow> Inr (Some (result_of best_match))
                 | [] \<Rightarrow> Inl IndexError), n))"

subsection \<open>Cache, store and the endpoints\<close>

text \<open>The pydantic model \<^verbatim>\<open>AutoTransformConfig\<close>, and a row of
  \<^verbatim>\<open>auto_transform_configs\<close>: the same columns and the key \<^verbatim>\<open>id\<close>.\<close>

record auto_transform_config =
  cfg_tenant_id :: string
  cfg_enabled :: bool
  default_transformation_type :: string
  default_intensity :: int
  min_message_length :: int
  max_processing_delay_ms :: int
  require_confirmation :: bool
  show_preview :: bool
  preserve_original :: bool

record config_row = auto_transform_config +
  cfg_id :: nat

text \<open>A row of \<^verbatim>\<open>auto_transform_logs\<close>.\<close>

record log_row =
  log_tenant_id :: string
  log_rule_id :: "string option"
  log_user_id :: string
  original_message :: string
  transformed_message :: "json option"
  log_platform :: string
  log_channel_id :: "string option"
  status :: string
  error_message :: "py_error option"
  triggered_at :: int
  processed_at :: "int option"

text \<open>
  The state the endpoints act on. \<open>clock\<close> is the time in seconds (\<^verbatim>\<open>NOW()\<close> of the
  database, the clock of the cache's expiry); \<open>wall_time\<close> is \<^verbatim>\<open>datetime.now().time()\<close>.
  The cache keys \<^verbatim>\<open>auto_transform:config:{tenant_id}\<close> and
  \<^verbatim>\<open>auto_transform:rules:{tenant_id}\<close> are two maps from the tenant id to the cached value
  and the time at which it expires; \<^verbatim>\<open>json.dumps\<close> followed by \<^verbatim>\<open>json.loads\<close> is the
  identity. \<open>redis_up\<close> says whether the cache answers: when it does not, every call of
  \<^verbatim>\<open>redis_client\<close> raises. The database is reachable throughout.
  \<open>trigger_evals\<close> is a ghost counter of the calls of \<^verbatim>\<open>_evaluate_trigger\<close>.
  The metrics counters written by the background task \<^verbatim>\<open>track_metrics\<close> are left out.
\<close>

record world =
  redis_up :: bool
  clock :: int
  wall_time :: tod
  config_cache :: "string \<rightharpoonup> (config_row \<times> int)"
  rules_cache :: "string \<rightharpoonup> (rule list \<times> int)"
  db_configs :: "config_row list"
  db_rules :: "rule list"
  db_logs :: "log_row list"
  next_config_id :: nat
  trigger_evals :: nat

datatype http_exception = HTTPException nat py_error

text \<open>\<^verbatim>\<open>redis_client.get(key)\<close>: the value, unless it is absent or has expired.\<close>

definition redis_get :: "world \<Rightarrow> (string \<rightharpoonup> ('a \<times> int)) \<Rightarrow> string \<Rightarrow> py_error + 'a option" where
  "redis_get w tbl k =
     (if \<not> redis_up w then Inl ConnectionError
      else Inr (case tbl k of
                  None \<Rightarrow> None
                | Some (v, expires) \<Rightarrow> if clock w < expires then Some v else None))"

text \<open>\<^verbatim>\<open>redis_client.setex(key, 300, value)\<close> on each of the two key families.\<close>

definition setex_config :: "string \<Rightarrow> int \<Rightarrow> config_row \<Rightarrow> world \<Rightarrow> py_error + world" where
  "setex_config k ttl v w =
     (if \<not> redis_up w then Inl ConnectionError
      else Inr (w\<lparr>config_cache := (config_cache w)(k \<mapsto> (v, clock w + ttl))\<rparr>))"

definition setex_rules :: "string \<Rightarrow> int \<Rightarrow> rule list \<Rightarrow> world \<Rightarrow> py_error + world" where
  "setex_rules k ttl v w =
     (if \<not> redis_up w then Inl ConnectionError
      else Inr (w\<lparr>rules_cache := (rules_cache w)(k \<mapsto> (v, clock w + ttl))\<rparr>))"

text \<open>\<^verbatim>\<open>SELECT * FROM auto_transform_configs WHERE tenant_id = ...\<close>, \<^verbatim>\<open>.first()\<close>\<close>

definition select_config :: "world \<Rightarrow> string \<Rightarrow> config_row option" where
  "select_config w tid = find (\<lambda>c. cfg_tenant_id c = tid) (db_configs w)"

text \<open>
  \<^verbatim>\<open>SELECT * FROM auto_transform_rules WHERE config_id = ... AND enabled ORDER BY priority DESC\<close>
  (rows of equal priority are kept in table order).
\<close>

definition select_rules :: "world \<Rightarrow> nat \<Rightarrow> rule list" where
  "select_rules w cid =
     rev (sort_key priority (rev (filter (\<lambda>r. config_id r = cid \<and> enabled r) (db_rules w))))"

text \<open>
  Lines 339 to 356 of \<^verbatim>\<open>evaluate_message\<close>: the configuration of the tenant, from the
  cache or else from the store. \<open>None\<close> is the early return 'Auto-transform disabled'.
\<close>

definition load_config :: "string \<Rightarrow> world \<Rightarrow> py_error + (config_row option \<times> world)" where
  "load_config tid w =
     (case redis_get w (config_cache w) tid of
        Inl e \<Rightarrow> Inl e
      | Inr (Some config) \<Rightarrow> Inr (Some config, w)
      | Inr None \<Rightarrow>
         (case select_config w tid of
            None \<Rightarrow> Inr (None, w)
          | Some result \<Rightarrow>
              if \<not> cfg_enabled result then Inr (None, w)
              else (case setex_config tid 300 result w of
                      Inl e \<Rightarrow> Inl e
                    | Inr w' \<Rightarrow> Inr (Some result, w'))))"

text \<open>Lines 363 to 381: the rules of the tenant, from the cache or else from the store.\<close>

definition load_rules :: "string \<Rightarrow> config_row \<Rightarrow> world \<Rightarrow> py_error + (rule list \<times> world)" where
  "load_rules tid config w =
     (case redis_get w (rules_cache w) tid of
        Inl e \<Rightarrow> Inl e
      | Inr (Some rs) \<Rightarrow> Inr (rs, w)
      | Inr None \<Rightarrow>
         (let rs = select_rules w (cfg_id config)
          in case setex_rules tid 300 rs w of
               Inl e \<Rightarrow> Inl e
             | Inr w' \<Rightarrow> Inr (rs, w')))"

text \<open>The two shapes of the answer of \<^verbatim>\<open>/evaluate\<close>:
  \<^verbatim>\<open>{"should_transform": False, "reason": ...}\<close> and \<^verbatim>\<open>result.dict()\<close>.\<close>

datatype eval_response = NoTransform string | Transform transformation_result

definition triggered_row :: "message_context \<Rightarrow> transformation_result \<Rightarrow> int \<Rightarrow> log_row" where
  "triggered_row context result now =
     \<lparr>log_tenant_id = tenant_id context,
      log_rule_id = res_rule_id result,
      log_user_id = user_id context,
      original_message = message context,
      transformed_message = None,
      log_platform = platform context,
      log_channel_id = channel_id context,
      status = ''triggered'',
      error_message = None,
      triggered_at = now,
      processed_at = None\<rparr>"

text \<open>
  \<^verbatim>\<open>evaluate_message\<close>. Every exception raised in its body is turned into
  \<^verbatim>\<open>HTTPException(status_code=500)\<close>.
\<close>

definition evaluate_message ::
  "extern \<Rightarrow> message_context \<Rightarrow> world \<Rightarrow> (http_exception + eval_response) \<times> world" where
  "evaluate_message ext context w =
     (case load_config (tenant_id context) w of
        Inl e \<Rightarrow> (Inl (HTTPException 500 e), w)
      | Inr (None, w1) \<Rightarrow> (Inr (NoTransform ''Auto-transform disabled''), w1)
      | Inr (Some config, w1) \<Rightarrow>
         if int (length (message context)) < min_message_length config
         then (Inr (NoTransform ''Message too short''), w1)
         else
          (case load_rules (tenant_id context) config w1 of
             Inl e \<Rightarrow> (Inl (HTTPException 500 e), w1)
           | Inr (rs, w2) \<Rightarrow>
              if rs = [] then (Inr (NoTransform ''No active rules''), w2)
              else
               (case evaluate_rules ext (wall_time w2) context rs of
                  (Inl e, n) \<Rightarrow>
                    (Inl (HTTPException 500 e), w2\<lparr>trigger_evals := trigger_evals w2 + n\<rparr>)
                | (Inr (Some result), n) \<Rightarrow>
                    (Inr (Transform result),
                     w2\<lparr>trigger_evals := trigger_evals w2 + n,
                        db_logs := db_logs w2 @ [triggered_row context result (clock w2)]\<rparr>)
                | (Inr None, n) \<Rightarrow>
                    (Inr (NoTransform ''No matching rules''),
                     w2\<lparr>trigger_evals := trigger_evals w2 + n\<rparr>))))"

text \<open>
  The outcome of the HTTP call to the transform service: no connection, a timeout, or a
  response with its status code and its body (\<open>None\<close> when the body is not JSON). The
  service is a parameter, a function of the request
  \<^verbatim>\<open>{text, transformation_type, intensity, options}\<close>.
\<close>

datatype llm_reply = ConnectFailed | TimedOut | Reply nat "json option"

type_synonym llm_service = "string \<Rightarrow> string \<Rightarrow> int \<Rightarrow> pydict \<Rightarrow> llm_reply"

text \<open>\<^verbatim>\<open>client.post(...)\<close>, \<^verbatim>\<open>response.raise_for_status()\<close> (which raises unless the
  status is 2xx) and \<^verbatim>\<open>response.json()\<close>.\<close>

definition call_llm :: "llm_reply \<Rightarrow> py_error + json" where
  "call_llm reply =
     (case reply of
        ConnectFailed \<Rightarrow> Inl TransportError
      | TimedOut \<Rightarrow> Inl TimeoutException
      | Reply code body \<Rightarrow>
          if 200 \<le> code \<and> code < 300 then
            (case body of None \<Rightarrow> Inl JSONDecodeError | Some j \<Rightarrow> Inr j)
          else Inl (HTTPStatusError code))"

text \<open>
  \<^verbatim>\<open>if not transform_result.get('success'): raise Exception("Transformation failed")\<close> and
  \<^verbatim>\<open>transform_result['data']['transformed_text']\<close>.
\<close>

definition extract_text :: "json \<Rightarrow> py_error + json" where
  "extract_text transform_result =
     (case transform_result of
        JDict d \<Rightarrow>
          if \<not> truthy (dict_get d ''success'' JNull) then Inl TransformationFailed
          else (case map_of d ''data'' of
                  None \<Rightarrow> Inl KeyError
                | Some (JDict dd) \<Rightarrow>
                    (case map_of dd ''transformed_text'' of
                       None \<Rightarrow> Inl KeyError
                     | Some t \<Rightarrow> Inr t)
                | Some v \<Rightarrow> Inl TypeError)
      | _ \<Rightarrow> Inl AttributeError)"

text \<open>
  The \<^verbatim>\<open>WHERE\<close> clause of both \<^verbatim>\<open>UPDATE auto_transform_logs\<close> statements:
  \<^verbatim>\<open>tenant_id = :tenant_id AND user_id = :user_id AND status = 'triggered'
  AND triggered_at > NOW() - INTERVAL '1 minute'\<close>.
\<close>

definition correlated :: "message_context \<Rightarrow> int \<Rightarrow> log_row \<Rightarrow> bool" where
  "correlated context now r =
     (log_tenant_id r = tenant_id context \<and> log_user_id r = user_id context
      \<and> status r = ''triggered'' \<and> triggered_at r > now - 60)"

definition mark_transformed :: "json \<Rightarrow> int \<Rightarrow> log_row \<Rightarrow> log_row" where
  "mark_transformed transformed now r =
     r\<lparr>transformed_message := Some transformed, processed_at := Some now,
       status := ''transformed''\<rparr>"

definition mark_failed :: "py_error \<Rightarrow> int \<Rightarrow> log_row \<Rightarrow> log_row" where
  "mark_failed e now r =
     r\<lparr>status := ''failed'', error_message := Some e, processed_at := Some now\<rparr>"

text \<open>An \<^verbatim>\<open>UPDATE ... SET ... WHERE ...\<close> changes every row the condition selects.\<close>

definition sql_update :: "('r \<Rightarrow> bool) \<Rightarrow> ('r \<Rightarrow> 'r) \<Rightarrow> 'r list \<Rightarrow> 'r list" where
  "sql_update cond upd rows = map (\<lambda>r. if cond r then upd r else r) rows"

text \<open>The answer of \<^verbatim>\<open>/transform\<close> on success.\<close>

record transform_response =
  success :: bool
  original :: string
  transformed :: json
  rule_applied :: "string option"
  tr_confidence :: rat

definition auto_transform ::
  "llm_service \<Rightarrow> message_context \<Rightarrow> transformation_result \<Rightarrow> world
     \<Rightarrow> (http_exception + transform_response) \<times> world" where
  "auto_transform llm context transformation w =
     (case (case call_llm (llm (message context)
                              (res_transformation_type transformation)
                              (res_transformation_intensity transformation)
                              (res_transformation_options transformation)) of
              Inl e \<Rightarrow> Inl e
            | Inr transform_result \<Rightarrow> extract_text transform_result) of
        Inr transformed_text \<Rightarrow>
          (Inr \<lparr>success = True,
                original = message context,
                transformed = transformed_text,
                rule_applied = res_rule_name transformation,
                tr_confidence = res_confidence transformation\<rparr>,
           w\<lparr>db_logs := sql_update (correlated context (clock w))
                           (mark_transformed transformed_text (clock w)) (db_logs w)\<rparr>)
      | Inl e \<Rightarrow>
          (Inl (HTTPException 500 e),
           w\<lparr>db_logs := sql_update (correlated context (clock w))
                           (mark_failed e (clock w)) (db_logs w)\<rparr>))"



definition new_row :: "string \<Rightarrow> auto_transform_config \<Rightarrow> nat \<Rightarrow> config_row" where
  "new_row tid config n =
     \<lparr>cfg_tenant_id = tid,
      cfg_enabled = cfg_enabled config,
      default_transformation_type = default_transformation_type config,
      default_intensity = default_intensity config,
      min_message_length = min_message_length config,
      max_processing_delay_ms = max_processing_delay_ms config,
      require_confirmation = require_confirmation config,
      show_preview = show_preview config,
      preserve_original = preserve_original config,
      cfg_id = n\<rparr>"




subsection \<open>Notions of the specification\<close>



text \<open>The entry of \<^verbatim>\<open>matches\<close> made for a rule and the result of its trigger.\<close>

definition mk_match :: "rule \<Rightarrow> trig_result \<Rightarrow> rule_match" where
  "mk_match r t = \<lparr>m_rule = r, m_confidence = confidence t, m_reason = reason t\<rparr>"



text \<open>
  A bound of a time trigger: \<open>None\<close> when the key is unset (absent, \<^verbatim>\<open>None\<close> or empty),
  \<open>Some t\<close> when it is a string that parses to the time \<open>t\<close> without UTC offset.
\<close>

definition time_bound :: "extern \<Rightarrow> pydict \<Rightarrow> string \<Rightarrow> tod option \<Rightarrow> bool" where
  "time_bound ext config k b =
     (case b of
        None \<Rightarrow> \<not> truthy (dict_get config k JNull)
      | Some t \<Rightarrow>
          (\<exists>s. dict_get config k JNull = JStr s \<and> s \<noteq> []
               \<and> fromisoformat ext s = Inr \<lparr>time_of_day = t, tz_aware = False\<rparr>))"

text \<open>An upstream failure: a transport error, a timeout, a status that is not 2xx, or a
  response that does not say \<^verbatim>\<open>success\<close>.\<close>

definition upstream_failure :: "llm_reply \<Rightarrow> bool" where
  "upstream_failure reply =
     (case reply of
        ConnectFailed \<Rightarrow> True
      | TimedOut \<Rightarrow> True
      | Reply code body \<Rightarrow>
          \<not> (200 \<le> code \<and> code < 300)
          \<or> (case body of
                Some (JDict d) \<Rightarrow> \<not> truthy (dict_get d ''success'' JNull)
              | _ \<Rightarrow> True))"


subsection \<open>Sample data\<close>

text \<open>
  Concrete inputs on which the model is evaluated below. \<open>parse_hhmm\<close> reads the format
  \<^verbatim>\<open>HH:MM\<close> (the format the SDK documents for time rules) and stands for
  \<^verbatim>\<open>time.fromisoformat\<close> on the strings used here; the sample regular expression search
  treats a pattern as a literal.
\<close>

definition digit_of :: "char \<Rightarrow> nat option" where
  "digit_of c = (let n = (of_char c :: nat) in if 48 \<le> n \<and> n \<le> 57 then Some (n - 48) else None)"

definition parse_hhmm :: "string \<Rightarrow> py_error + pytime" where
  "parse_hhmm s =
     (if length s = 5 \<and> s ! 2 = CHR '':'' then
        (case (digit_of (s ! 0), digit_of (s ! 1), digit_of (s ! 3), digit_of (s ! 4)) of
           (Some h1, Some h0, Some m1, Some m0) \<Rightarrow>
             if 10 * h1 + h0 < 24 \<and> 10 * m1 + m0 < 60
             then Inr \<lparr>time_of_day = (10 * h1 + h0, 10 * m1 + m0, 0, 0), tz_aware = False\<rparr>
             else Inl ValueError
         | _ \<Rightarrow> Inl ValueError)
      else Inl ValueError)"

definition sample_extern :: extern where
  "sample_extern =
     \<lparr>textblob_polarity = (\<lambda>m. Some 0),
      fromisoformat = parse_hhmm,
      re_search = (\<lambda>p m. Some (str_contains (lower m) (lower p))),
      format_2f = (\<lambda>r. ''0.00''),
      py_str = (\<lambda>v. ''0'')\<rparr>"

definition sample_context :: message_context where
  "sample_context =
     \<lparr>message = ''This is absolutely unacceptable, fix it now!!!'',
      user_id = ''U1'', tenant_id = ''T1'', platform = ''slack'',
      channel_id = Some ''C1'', recipient_ids = [], metadata = []\<rparr>"

definition sample_rule :: "string \<Rightarrow> int \<Rightarrow> string \<Rightarrow> pydict \<Rightarrow> rule" where
  "sample_rule rid prio ttype tvalue =
     \<lparr>rule_id = rid, config_id = 1, rule_name = rid, enabled = True, priority = prio,
      trigger_type = ttype, trigger_value = tvalue,
      transformation_type = ''tone'', transformation_intensity = 2,
      transformation_options = [], platforms = [], channels = [], user_roles = []\<rparr>"


definition rule_lo :: rule where
  "rule_lo = sample_rule ''R-lo'' 5 ''keyword'' [(''keywords'', JList [JStr ''now''])]"

text \<open>Rules with a malformed trigger value.\<close>

definition rule_bad_time :: rule where
  "rule_bad_time = sample_rule ''R-time'' 1 ''time'' [(''after'', JStr ''not-a-time'')]"

definition rule_bad_keyword :: rule where
  "rule_bad_keyword = sample_rule ''R-kw'' 1 ''keyword'' [(''keywords'', JList [JInt 5])]"

definition sample_config :: auto_transform_config where
  "sample_config =
     \<lparr>cfg_tenant_id = ''T1'', cfg_enabled = True, default_transformation_type = ''soften'',
      default_intensity = 2, min_message_length = 10, max_processing_delay_ms = 500,
      require_confirmation = True, show_preview = True, preserve_original = True\<rparr>"

definition sample_world :: "rule list \<Rightarrow> world" where
  "sample_world rs =
     \<lparr>redis_up = True, clock = 1000, wall_time = (12, 0, 0, 0),
      config_cache = Map.empty, rules_cache = Map.empty,
      db_configs = [new_row ''T1'' sample_config 1],
      db_rules = rs, db_logs = [], next_config_id = 2, trigger_evals = 0\<rparr>"

definition sample_log :: "int \<Rightarrow> log_row" where
  "sample_log t =
     \<lparr>log_tenant_id = ''T1'', log_rule_id = Some ''R1'', log_user_id = ''U1'',
      original_message = ''This is absolutely unacceptable, fix it now!!!'',
      transformed_message = None, log_platform = ''slack'', log_channel_id = Some ''C1'',
      status = ''triggered'', error_message = None, triggered_at = t, processed_at = None\<rparr>"

definition sample_transformation :: transformation_result where
  "sample_transformation =
     \<lparr>should_transform = True, res_rule_id = Some ''R1'', res_rule_name = Some ''R1'',
      res_transformation_type = ''tone'', res_transformation_intensity = 2,
      res_transformation_options = [], res_confidence = 1,
      res_reason = Some ''Contains keywords: unacceptable, now''\<rparr>"

definition llm_ok :: llm_service where
  "llm_ok text ttype intensity options =
     Reply 200 (Some (JDict [(''success'', JBool True),
                             (''data'', JDict [(''transformed_text'', JStr ''Could you fix it?'')])]))"

definition llm_down :: llm_service where
  "llm_down text ttype intensity options = Reply 503 None"





section \<open>Properties\<close>

subsection \<open>Strings and keywords\<close>





lemma found_keywords_length:
  "found_keywords ml kws = Inr found \<Longrightarrow> length found \<le> length kws"
proof (induction ml kws arbitrary: found rule: found_keywords.induct)
  case (1 ml)
  then show ?case by simp
next
  case (2 ml kw kws)
  then show ?case by (auto split: sum.splits if_splits)
qed simp_all


lemma py_iter_err: "py_iter v = Inl e \<Longrightarrow> e = TypeError"
  by (cases v) auto

lemma found_keywords_err: "found_keywords ml kws = Inl e \<Longrightarrow> e = AttributeError"
  by (induction ml kws rule: found_keywords.induct) (auto split: sum.splits)




text \<open>
  C10. On an empty keyword list the keyword evaluator answers no match, with confidence
  0 and the reason 'No keywords found'; and whatever the message and the keywords, it
  never raises \<^verbatim>\<open>ZeroDivisionError\<close>, the division being reached only when a keyword
  was found.
\<close>

theorem check_keywords_empty:
  "check_keywords msg (JList []) = Inr \<lparr>matches = False, confidence = 0, reason = ''No keywords found''\<rparr>
   \<and> check_keywords msg keywords \<noteq> Inl ZeroDivisionError"
proof
  show "check_keywords msg (JList []) = Inr \<lparr>matches = False, confidence = 0, reason = ''No keywords found''\<rparr>"
    by (simp add: check_keywords_def no_match_def)
  show "check_keywords msg keywords \<noteq> Inl ZeroDivisionError"
  proof (cases "py_iter keywords")
    case (Inl e)
    then show ?thesis using py_iter_err [OF Inl] by (simp add: check_keywords_def)
  next
    case (Inr kws)
    note it = this
    show ?thesis
    proof (cases "found_keywords (lower msg) kws")
      case (Inl e)
      then show ?thesis using found_keywords_err [OF Inl] it by (simp add: check_keywords_def)
    next
      case (Inr found)
      have "found \<noteq> [] \<Longrightarrow> kws \<noteq> []" using found_keywords_length [OF Inr] by auto
      then show ?thesis using Inr it by (auto simp: check_keywords_def py_truediv_def)
    qed
  qed
qed

subsection \<open>The time trigger\<close>

lemma parse_0900: "parse_hhmm ''09:00'' = Inr \<lparr>time_of_day = (9, 0, 0, 0), tz_aware = False\<rparr>"
  by (simp add: parse_hhmm_def digit_of_def)

lemma parse_1700: "parse_hhmm ''17:00'' = Inr \<lparr>time_of_day = (17, 0, 0, 0), tz_aware = False\<rparr>"
  by (simp add: parse_hhmm_def digit_of_def)

text \<open>
  C7, as the code has it. For a time trigger whose bounds are each unset or a string
  that parses to a time without UTC offset, the evaluator matches exactly when the
  current time of day lies in the closed interval from 'after' to 'before': it matches
  at a time equal to either bound, an unset bound is always satisfied, and a match has
  confidence 0.9.
\<close>

theorem check_time_window:
  assumes a: "time_bound ext config ''after'' a"
      and b: "time_bound ext config ''before'' b"
  shows "\<exists>r. check_time ext now config = Inr r
     \<and> (matches r \<longleftrightarrow>
          (case a of None \<Rightarrow> True | Some ta \<Rightarrow> ta \<le> now)
          \<and> (case b of None \<Rightarrow> True | Some tb \<Rightarrow> now \<le> tb))
     \<and> (matches r \<longrightarrow> confidence r = 9 / 10)"
proof -
  have A: "(if truthy (dict_get config ''after'' JNull) then
                 (case parse_bound ext (dict_get config ''after'' JNull) of
                    Inl e \<Rightarrow> Inl e
                  | Inr after_time \<Rightarrow> time_lt now after_time)
               else Inr False) = Inr (case a of None \<Rightarrow> False | Some ta \<Rightarrow> now < ta)"
    using a by (cases a) (auto simp: time_bound_def parse_bound_def time_lt_def)
  have B: "(if truthy (dict_get config ''before'' JNull) then
                 (case parse_bound ext (dict_get config ''before'' JNull) of
                    Inl e \<Rightarrow> Inl e
                  | Inr before_time \<Rightarrow> time_gt now before_time)
               else Inr False) = Inr (case b of None \<Rightarrow> False | Some tb \<Rightarrow> now > tb)"
    using b by (cases b) (auto simp: time_bound_def parse_bound_def time_gt_def)
  define pa where "pa = (case a of None \<Rightarrow> False | Some ta \<Rightarrow> now < ta)"
  define pb where "pb = (case b of None \<Rightarrow> False | Some tb \<Rightarrow> now > tb)"
  have ea: "(case a of None \<Rightarrow> True | Some ta \<Rightarrow> ta \<le> now) = (\<not> pa)"
    by (cases a) (simp_all add: pa_def not_less)
  have eb: "(case b of None \<Rightarrow> True | Some tb \<Rightarrow> now \<le> tb) = (\<not> pb)"
    by (cases b) (simp_all add: pb_def not_less)
  show ?thesis
    unfolding check_time_def Let_def A B ea eb pa_def [symmetric] pb_def [symmetric]
    by (cases pa; cases pb) (simp_all add: no_match_def)
qed

text \<open>At 09:00, the 'after' bound of the window 09:00 to 17:00, the trigger matches.\<close>

theorem check_time_window_witness:
  "\<exists>r. check_time sample_extern (9, 0, 0, 0) [(''after'', JStr ''09:00''), (''before'', JStr ''17:00'')] = Inr r
       \<and> matches r \<and> confidence r = 9 / 10"
proof -
  have a: "time_bound sample_extern [(''after'', JStr ''09:00''), (''before'', JStr ''17:00'')] ''after'' (Some (9, 0, 0, 0))"
    by (simp add: time_bound_def dict_get_def sample_extern_def parse_0900)
  have b: "time_bound sample_extern [(''after'', JStr ''09:00''), (''before'', JStr ''17:00'')] ''before'' (Some (17, 0, 0, 0))"
    by (simp add: time_bound_def dict_get_def sample_extern_def parse_1700)
  show ?thesis
    using check_time_window [OF a b, of "(9, 0, 0, 0)"] by (auto simp: less_eq_prod_def)
qed

text \<open>
  C7 as stated fails: at 17:00, a time equal to the 'before' bound of the window 09:00 to
  17:00, the trigger matches, where a half-open interval would not.
\<close>

theorem check_time_before_bound_matches:
  "check_time sample_extern (17, 0, 0, 0) [(''after'', JStr ''09:00''), (''before'', JStr ''17:00'')]
     = Inr \<lparr>matches = True, confidence = 9 / 10, reason = ''Within time window: 17:00''\<rparr>"
  by code_simp

subsection \<open>Rule resolution\<close>










text \<open>
  C6 fails on the code. A keyword that is not a string makes \<^verbatim>\<open>_check_keywords\<close> raise
  \<^verbatim>\<open>AttributeError\<close>, and a time bound that does not parse makes \<^verbatim>\<open>_check_time\<close> raise
  \<^verbatim>\<open>ValueError\<close>; the exception leaves \<^verbatim>\<open>evaluate_rules\<close> although another rule
  matches, and \<^verbatim>\<open>evaluate_message\<close> answers with status 500 where, without the
  malformed rule, it answers with the matching rule.
\<close>

theorem malformed_trigger_raises:
  "check_keywords (message sample_context) (JList [JInt 5]) = Inl AttributeError
   \<and> check_time sample_extern (12, 0, 0, 0) [(''after'', JStr ''not-a-time'')] = Inl ValueError
   \<and> evaluate_rules sample_extern (12, 0, 0, 0) sample_context [rule_bad_time, rule_lo]
      = (Inl ValueError, 1)
   \<and> evaluate_rules sample_extern (12, 0, 0, 0) sample_context [rule_bad_keyword, rule_lo]
      = (Inl AttributeError, 1)
   \<and> fst (evaluate_message sample_extern sample_context (sample_world [rule_bad_time, rule_lo]))
      = Inl (HTTPException 500 ValueError)
   \<and> fst (evaluate_message sample_extern sample_context (sample_world [rule_lo]))
      = Inr (Transform (result_of (mk_match rule_lo
          \<lparr>matches = True, confidence = 1, reason = ''Contains keywords: now''\<rparr>)))"
  by code_simp

subsection \<open>The transformation log\<close>

lemma sql_update_nth:
  "i < length rows \<Longrightarrow>
     sql_update cond upd rows ! i = (if cond (rows ! i) then upd (rows ! i) else rows ! i)"
  by (simp add: sql_update_def)

lemma length_sql_update: "length (sql_update cond upd rows) = length rows"
  by (simp add: sql_update_def)

lemma upstream_failure_raises:
  assumes "upstream_failure reply"
  shows "\<exists>e. (case call_llm reply of Inl e \<Rightarrow> Inl e | Inr tr \<Rightarrow> extract_text tr) = Inl e"
proof (cases reply)
  case ConnectFailed
  then show ?thesis by (simp add: call_llm_def)
next
  case TimedOut
  then show ?thesis by (simp add: call_llm_def)
next
  case (Reply code body)
  show ?thesis
  proof (cases "200 \<le> code \<and> code < 300")
    case False
    with Reply show ?thesis by (auto simp: call_llm_def)
  next
    case True
    with Reply assms have b: "(case body of Some (JDict d) \<Rightarrow> \<not> truthy (dict_get d ''success'' JNull) | _ \<Rightarrow> True)"
      by (simp add: upstream_failure_def)
    show ?thesis
    proof (cases body)
      case None
      with Reply True show ?thesis by (simp add: call_llm_def)
    next
      case (Some j)
      with b Reply True show ?thesis
        by (cases j) (simp_all add: call_llm_def extract_text_def)
    qed
  qed
qed

text \<open>
  C3. When the call of the transform service fails (transport error, timeout, a status
  that is not 2xx, or a response without \<^verbatim>\<open>success\<close>), \<^verbatim>\<open>auto_transform\<close> answers with
  an \<^verbatim>\<open>HTTPException\<close> of status 500, never with a success, and every log row correlated
  with the request (same tenant and user, status 'triggered', triggered within the last
  60 seconds) is set to status 'failed' with the error; the other rows stay as they are.
\<close>

theorem auto_transform_failure:
  assumes "upstream_failure (llm (message ctx) (res_transformation_type tr)
             (res_transformation_intensity tr) (res_transformation_options tr))"
  shows "\<exists>e. fst (auto_transform llm ctx tr w) = Inl (HTTPException 500 e)
     \<and> length (db_logs (snd (auto_transform llm ctx tr w))) = length (db_logs w)
     \<and> (\<forall>i<length (db_logs w).
           db_logs (snd (auto_transform llm ctx tr w)) ! i =
             (if correlated ctx (clock w) (db_logs w ! i)
              then (db_logs w ! i)\<lparr>status := ''failed'', error_message := Some e,
                                    processed_at := Some (clock w)\<rparr>
              else db_logs w ! i))"
proof -
  from upstream_failure_raises [OF assms] obtain e where
    e: "(case call_llm (llm (message ctx) (res_transformation_type tr)
             (res_transformation_intensity tr) (res_transformation_options tr)) of
           Inl e \<Rightarrow> Inl e | Inr t \<Rightarrow> extract_text t) = Inl e" by blast
  have "auto_transform llm ctx tr w =
          (Inl (HTTPException 500 e),
           w\<lparr>db_logs := sql_update (correlated ctx (clock w)) (mark_failed e (clock w)) (db_logs w)\<rparr>)"
    unfolding auto_transform_def e by simp
  then show ?thesis
    by (intro exI [of _ e]) (simp add: sql_update_nth length_sql_update mark_failed_def)
qed

text \<open>The service answers 503: the row triggered 10 seconds ago ends as 'failed'.\<close>

theorem auto_transform_failure_witness:
  "fst (auto_transform llm_down sample_context sample_transformation
          ((sample_world [rule_lo])\<lparr>db_logs := [sample_log 990]\<rparr>))
     = Inl (HTTPException 500 (HTTPStatusError 503))
   \<and> map status (db_logs (snd (auto_transform llm_down sample_context sample_transformation
          ((sample_world [rule_lo])\<lparr>db_logs := [sample_log 990]\<rparr>)))) = [''failed'']
   \<and> (\<exists>e. fst (auto_transform llm_down sample_context sample_transformation
          ((sample_world [rule_lo])\<lparr>db_logs := [sample_log 990]\<rparr>)) = Inl (HTTPException 500 e))"
proof -
  have u: "upstream_failure (llm_down (message sample_context)
             (res_transformation_type sample_transformation)
             (res_transformation_intensity sample_transformation)
             (res_transformation_options sample_transformation))"
    by (simp add: upstream_failure_def llm_down_def)
  from u auto_transform_failure [of llm_down sample_context sample_transformation
      "(sample_world [rule_lo])\<lparr>db_logs := [sample_log 990]\<rparr>"]
  have third: "\<exists>e. fst (auto_transform llm_down sample_context sample_transformation
          ((sample_world [rule_lo])\<lparr>db_logs := [sample_log 990]\<rparr>)) = Inl (HTTPException 500 e)"
    by blast
  have first: "fst (auto_transform llm_down sample_context sample_transformation
          ((sample_world [rule_lo])\<lparr>db_logs := [sample_log 990]\<rparr>))
     = Inl (HTTPException 500 (HTTPStatusError 503))"
    by code_simp
  have second: "map status (db_logs (snd (auto_transform llm_down sample_context sample_transformation
          ((sample_world [rule_lo])\<lparr>db_logs := [sample_log 990]\<rparr>)))) = [''failed'']"
    by code_simp
  from first second third show ?thesis by blast
qed

text \<open>
  C4, as the code has it. On success \<^verbatim>\<open>auto_transform\<close> answers with the transformed
  text, and the \<^verbatim>\<open>UPDATE\<close> sets every log row correlated with the request (same tenant
  and user, status 'triggered', triggered within the last 60 seconds) to status
  'transformed' with the output text; every row that is not correlated is left unchanged.
\<close>

theorem auto_transform_success_updates:
  assumes "call_llm (llm (message ctx) (res_transformation_type tr)
             (res_transformation_intensity tr) (res_transformation_options tr)) = Inr body"
      and "extract_text body = Inr text"
  shows "fst (auto_transform llm ctx tr w)
           = Inr \<lparr>success = True, original = message ctx, transformed = text,
                  rule_applied = res_rule_name tr, tr_confidence = res_confidence tr\<rparr>
     \<and> length (db_logs (snd (auto_transform llm ctx tr w))) = length (db_logs w)
     \<and> (\<forall>i<length (db_logs w).
           db_logs (snd (auto_transform llm ctx tr w)) ! i =
             (if correlated ctx (clock w) (db_logs w ! i)
              then (db_logs w ! i)\<lparr>transformed_message := Some text,
                                    processed_at := Some (clock w),
                                    status := ''transformed''\<rparr>
              else db_logs w ! i))"
  using assms
  by (simp add: auto_transform_def sql_update_nth length_sql_update mark_transformed_def)

text \<open>A row triggered 100 seconds ago is outside the window and stays 'triggered'; the
  row triggered 10 seconds ago becomes 'transformed'.\<close>

theorem auto_transform_success_updates_witness:
  "map status (db_logs (snd (auto_transform llm_ok sample_context sample_transformation
          ((sample_world [rule_lo])\<lparr>db_logs := [sample_log 900, sample_log 990]\<rparr>))))
     = [''triggered'', ''transformed'']
   \<and> fst (auto_transform llm_ok sample_context sample_transformation
          ((sample_world [rule_lo])\<lparr>db_logs := [sample_log 900, sample_log 990]\<rparr>))
     = Inr \<lparr>success = True, original = message sample_context,
            transformed = JStr ''Could you fix it?'',
            rule_applied = Some ''R1'', tr_confidence = 1\<rparr>"
proof -
  have c: "call_llm (llm_ok (message sample_context)
             (res_transformation_type sample_transformation)
             (res_transformation_intensity sample_transformation)
             (res_transformation_options sample_transformation))
           = Inr (JDict [(''success'', JBool True),
                         (''data'', JDict [(''transformed_text'', JStr ''Could you fix it?'')])])"
    by (simp add: call_llm_def llm_ok_def)
  have x: "extract_text (JDict [(''success'', JBool True),
                         (''data'', JDict [(''transformed_text'', JStr ''Could you fix it?'')])])
           = Inr (JStr ''Could you fix it?'')"
    by (simp add: extract_text_def dict_get_def)
  have second: "fst (auto_transform llm_ok sample_context sample_transformation
          ((sample_world [rule_lo])\<lparr>db_logs := [sample_log 900, sample_log 990]\<rparr>))
     = Inr \<lparr>success = True, original = message sample_context,
            transformed = JStr ''Could you fix it?'',
            rule_applied = Some ''R1'', tr_confidence = 1\<rparr>"
    using c x auto_transform_success_updates [of llm_ok sample_context sample_transformation
        "JDict [(''success'', JBool True),
                (''data'', JDict [(''transformed_text'', JStr ''Could you fix it?'')])]"
        "JStr ''Could you fix it?''"
        "(sample_world [rule_lo])\<lparr>db_logs := [sample_log 900, sample_log 990]\<rparr>"]
    by (simp add: sample_transformation_def)
  have first: "map status (db_logs (snd (auto_transform llm_ok sample_context sample_transformation
          ((sample_world [rule_lo])\<lparr>db_logs := [sample_log 900, sample_log 990]\<rparr>))))
     = [''triggered'', ''transformed'']"
    by code_simp
  from first second show ?thesis by blast
qed

text \<open>
  C4 as stated fails: with two rows of the same tenant and user triggered 50 and 10
  seconds ago, both inside the window, both are set to 'transformed', not only the most
  recent one.
\<close>

theorem auto_transform_updates_older_row_too:
  "map status (db_logs (snd (auto_transform llm_ok sample_context sample_transformation
          ((sample_world [rule_lo])\<lparr>db_logs := [sample_log 950, sample_log 990]\<rparr>))))
     = [''transformed'', ''transformed'']
   \<and> map triggered_at (db_logs ((sample_world [rule_lo])\<lparr>db_logs := [sample_log 950, sample_log 990]\<rparr>))
     = [950, 990]
   \<and> clock ((sample_world [rule_lo])\<lparr>db_logs := [sample_log 950, sample_log 990]\<rparr>) = 1000"
  by code_simp

subsection \<open>The cache\<close>

text \<open>
  C9, as the code has it. When the cache does not answer, \<^verbatim>\<open>evaluate_message\<close> does not
  fall back to the store: the error of the first cache read becomes an \<^verbatim>\<open>HTTPException\<close>
  of status 500, whatever the store holds, and the state is unchanged.
\<close>

theorem evaluate_message_cache_down:
  assumes "\<not> redis_up w"
  shows "evaluate_message ext ctx w = (Inl (HTTPException 500 ConnectionError), w)"
  using assms by (simp add: evaluate_message_def load_config_def redis_get_def)

theorem evaluate_message_cache_down_witness:
  "evaluate_message sample_extern sample_context ((sample_world [rule_lo])\<lparr>redis_up := False\<rparr>)
     = (Inl (HTTPException 500 ConnectionError), (sample_world [rule_lo])\<lparr>redis_up := False\<rparr>)"
proof -
  have "\<not> redis_up ((sample_world [rule_lo])\<lparr>redis_up := False\<rparr>)" by simp
  from evaluate_message_cache_down [OF this] show ?thesis .
qed

text \<open>
  C9 as stated fails: with the cache down the evaluation of the sample message fails with
  status 500, while with the cache reachable and cold the same store yields the decision
  to transform.
\<close>

theorem cache_down_differs_from_cold_cache:
  "fst (evaluate_message sample_extern sample_context ((sample_world [rule_lo])\<lparr>redis_up := False\<rparr>))
     = Inl (HTTPException 500 ConnectionError)
   \<and> fst (evaluate_message sample_extern sample_context (sample_world [rule_lo]))
     = Inr (Transform (result_of (mk_match rule_lo
          \<lparr>matches = True, confidence = 1, reason = ''Contains keywords: now''\<rparr>)))
   \<and> config_cache (sample_world [rule_lo]) ''T1'' = None
   \<and> rules_cache (sample_world [rule_lo]) ''T1'' = None"
  by code_simp






subsection \<open>The order of the negative decisions\<close>






end
